theory Spec2Isabelle
  imports Main "HOL-Library.Char_ord" "HOL-Library.List_Lexorder" "HOL-Library.Multiset"
    "HOL-Library.Product_Lexorder" "HOL-Library.Sublist"
begin

section \<open>Strings and lexical paths\<close>

text \<open>
  Go strings are byte sequences; they are modelled as \<^typ>\<open>string\<close>. The functions of
  this section are the library functions of packages \<^verbatim>\<open>strings\<close>, \<^verbatim>\<open>path\<close> and
  \<^verbatim>\<open>path/filepath\<close> (on a Unix system) that the program calls, written after their
  documented behaviour and keeping their names.
\<close>

text \<open>\<^verbatim>\<open>strings.Split(p, "/")\<close>\<close>

fun split_path :: "string \<Rightarrow> string list" where
  "split_path [] = [[]]"
| "split_path (c # cs) =
     (if c = CHR ''/'' then [] # split_path cs
      else (case split_path cs of [] \<Rightarrow> [[c]] | x # xs \<Rightarrow> (c # x) # xs))"

text \<open>\<^verbatim>\<open>strings.Join(xs, "/")\<close>\<close>

fun join_slash :: "string list \<Rightarrow> string" where
  "join_slash [] = []"
| "join_slash [x] = x"
| "join_slash (x # y # ys) = x @ CHR ''/'' # join_slash (y # ys)"

definition IsAbs :: "string \<Rightarrow> bool" where
  "IsAbs p = (case p of [] \<Rightarrow> False | c # _ \<Rightarrow> c = CHR ''/'')"

text \<open>
  \<^verbatim>\<open>path.Clean\<close>: multiple slashes collapse, \<^verbatim>\<open>.\<close> elements vanish, an inner \<^verbatim>\<open>..\<close>
  removes the element before it, \<^verbatim>\<open>..\<close> at the start of a rooted path vanishes, and the
  empty result is \<^verbatim>\<open>.\<close>. The stack of elements kept so far is held in reverse.
\<close>

fun clean_step :: "bool \<Rightarrow> string list \<Rightarrow> string \<Rightarrow> string list" where
  "clean_step rooted stk c =
     (if c = [] then stk
      else if c = ''.'' then stk
      else if c = ''..'' then
        (case stk of
           [] \<Rightarrow> if rooted then [] else [''..'']
         | t # ts \<Rightarrow> if t = ''..'' then ''..'' # stk else ts)
      else c # stk)"

definition Clean :: "string \<Rightarrow> string" where
  "Clean p =
     (let rooted = IsAbs p;
          out = rev (foldl (clean_step rooted) [] (split_path p));
          s = (if rooted then ''/'' else []) @ join_slash out
      in if s = [] then ''.'' else s)"

text \<open>\<^verbatim>\<open>path.Join\<close>: empty elements are ignored, the rest is joined by slashes and cleaned.\<close>

fun join_buf :: "string \<Rightarrow> string list \<Rightarrow> string" where
  "join_buf buf [] = buf"
| "join_buf buf (e # es) =
     (if buf = [] then join_buf e es else join_buf (buf @ CHR ''/'' # e) es)"

definition Join :: "string list \<Rightarrow> string" where
  "Join elem = (if concat elem = [] then [] else Clean (join_buf [] elem))"

text \<open>\<^verbatim>\<open>path.Split\<close>: the path up to and including the last slash, and the rest.\<close>

definition Split :: "string \<Rightarrow> string \<times> string" where
  "Split p =
     (let file = rev (takeWhile (\<lambda>c. c \<noteq> CHR ''/'') (rev p))
      in (take (length p - length file) p, file))"

text \<open>
  The base name \<^verbatim>\<open>os.Stat\<close> stores in the \<^verbatim>\<open>FileInfo\<close> it returns: trailing slashes are
  dropped and the last element is kept.
\<close>

definition Base :: "string \<Rightarrow> string" where
  "Base p =
     (if p = [] then ''.''
      else (let q = rev (dropWhile (\<lambda>c. c = CHR ''/'') (rev p))
            in if q = [] then ''/'' else snd (Split q)))"

text \<open>
  \<^verbatim>\<open>filepath.Rel\<close>: both paths are cleaned; equal paths give \<^verbatim>\<open>.\<close>; a rooted and an
  unrooted path cannot be related; otherwise the common leading elements are dropped, each
  element left of the base becomes \<^verbatim>\<open>..\<close>, and the rest of the target follows. \<open>None\<close> is
  the error return.
\<close>

definition rel_elems :: "string \<Rightarrow> string list" where
  "rel_elems p = (if p = [] then [] else if p = ''/'' then [[]] else split_path p)"

fun strip_common :: "string list \<Rightarrow> string list \<Rightarrow> string list \<times> string list" where
  "strip_common (b # bs) (t # ts) = (if b = t then strip_common bs ts else (b # bs, t # ts))"
| "strip_common bs ts = (bs, ts)"

definition Rel :: "string \<Rightarrow> string \<Rightarrow> string option" where
  "Rel basepath targpath =
     (let base0 = Clean basepath; targ = Clean targpath
      in if targ = base0 then Some ''.''
         else (let base = (if base0 = ''.'' then [] else base0)
               in if IsAbs base = IsAbs targ
                  then (case strip_common (rel_elems base) (rel_elems targ) of
                          (b # bs, t # ts) \<Rightarrow>
                            if b = ''..'' then None
                            else Some (join_slash (map (\<lambda>_. ''..'') (b # bs) @ t # ts))
                        | (b # bs, []) \<Rightarrow> Some (join_slash (map (\<lambda>_. ''..'') (b # bs)))
                        | ([], ts) \<Rightarrow> Some (join_slash ts))
                  else None))"

text \<open>
  \<^verbatim>\<open>strings.ToLower\<close> on ASCII bytes (bytes outside \<^verbatim>\<open>A\<close>..\<^verbatim>\<open>Z\<close> are kept), and
  \<^verbatim>\<open>strings.HasPrefix\<close>, \<^verbatim>\<open>strings.Contains\<close>.
\<close>

definition lower_char :: "char \<Rightarrow> char" where
  "lower_char c =
     (if CHR ''A'' \<le> c \<and> c \<le> CHR ''Z'' then char_of (of_char c + (32::nat)) else c)"

definition ToLower :: "string \<Rightarrow> string" where
  "ToLower s = map lower_char s"

fun HasPrefix :: "string \<Rightarrow> string \<Rightarrow> bool" where
  "HasPrefix s [] = True"
| "HasPrefix [] (p # ps) = False"
| "HasPrefix (c # cs) (p # ps) = (c = p \<and> HasPrefix cs ps)"

fun Contains :: "string \<Rightarrow> string \<Rightarrow> bool" where
  "Contains [] sub = (sub = [])"
| "Contains (c # cs) sub = (HasPrefix (c # cs) sub \<or> Contains cs sub)"

section \<open>Errors, file information and the operating system\<close>

text \<open>
  Go error values. \<open>SkipDir\<close> is the sentinel \<^verbatim>\<open>fs.SkipDir\<close>; \<open>ErrPermission\<close> stands for
  every error \<^verbatim>\<open>e\<close> with \<^verbatim>\<open>errors.Is(e, os.ErrPermission)\<close>, and likewise for the other
  system errors; \<open>ErrOther\<close> is any other error, with its message.
\<close>

datatype error =
  SkipDir | ErrPermission | ErrNotExist | ErrNotDir | ErrIsDir | ErrLoop | ErrInvalid
  | ErrOther string

text \<open>The type bits of an \<^verbatim>\<open>fs.FileMode\<close>; \<open>ModeRegular\<close> is the value 0.\<close>

datatype FileMode = ModeRegular | ModeDir | ModeSymlink | ModeIrregular

record fs_FileInfo =
  fi_Name :: string
  fi_Size :: nat
  fi_Mode :: FileMode

definition IsDir :: "fs_FileInfo \<Rightarrow> bool" where
  "IsDir i = (fi_Mode i = ModeDir)"

text \<open>
  An \<^verbatim>\<open>fs.DirEntry\<close> is either the \<^verbatim>\<open>statDirEntry\<close> of the walker (part of the program) or
  an entry returned by \<^verbatim>\<open>os.ReadDir\<close>, which knows its parent directory, its name and its
  type, and whose \<^verbatim>\<open>Info\<close> method calls \<^verbatim>\<open>lstat\<close>.
\<close>

datatype DirEntry = statDirEntry fs_FileInfo | unixDirEntry string string FileMode

fun d_Name :: "DirEntry \<Rightarrow> string" where
  "d_Name (statDirEntry info) = fi_Name info"
| "d_Name (unixDirEntry parent name typ) = name"

fun d_IsDir :: "DirEntry \<Rightarrow> bool" where
  "d_IsDir (statDirEntry info) = IsDir info"
| "d_IsDir (unixDirEntry parent name typ) = (typ = ModeDir)"

fun d_Type :: "DirEntry \<Rightarrow> FileMode" where
  "d_Type (statDirEntry info) = fi_Mode info"
| "d_Type (unixDirEntry parent name typ) = typ"

text \<open>
  The system calls the program makes. The file system does not change while one request
  is served, so each call is a function of its path. \<open>ReadDir\<close> returns the entries it could
  read together with an error, as \<^verbatim>\<open>os.ReadDir\<close> does.
\<close>

record os =
  Stat :: "string \<Rightarrow> error + fs_FileInfo"
  Lstat :: "string \<Rightarrow> error + fs_FileInfo"
  Readlink :: "string \<Rightarrow> error + string"
  ReadDir :: "string \<Rightarrow> DirEntry list \<times> error option"
  ReadFile :: "string \<Rightarrow> error + string"

subsection \<open>A file system as a tree\<close>

text \<open>
  A concrete operating system over a tree of nodes. A directory holds its entries in the
  order \<^verbatim>\<open>os.ReadDir\<close> returns them (sorted by file name). The flag of a file or a
  directory is its read permission. Path resolution follows POSIX: elements are looked up
  one by one from the root or the working directory, a symbolic link is replaced by its
  target (relative targets continue in the link's directory), and the 41st link met in one
  resolution is the error \<^verbatim>\<open>ELOOP\<close> (the limit of Linux).
\<close>

datatype node =
  File bool string | Dir bool "(string \<times> node) list" | Symlink string | Special

fun lookup_node :: "node \<Rightarrow> string list \<Rightarrow> node option" where
  "lookup_node n [] = Some n"
| "lookup_node (Dir r es) (c # cs) =
     (case map_of es c of None \<Rightarrow> None | Some m \<Rightarrow> lookup_node m cs)"
| "lookup_node n (c # cs) = None"

definition MAXSYMLINKS :: nat where
  "MAXSYMLINKS = 40"

fun namei :: "node \<Rightarrow> bool \<Rightarrow> nat \<Rightarrow> string list \<Rightarrow> string list \<Rightarrow> error + string list" where
  "namei rt follow k cur [] = Inr cur"
| "namei rt follow k cur (c # cs) =
     (case lookup_node rt cur of
        None \<Rightarrow> Inl ErrNotExist
      | Some (Dir r es) \<Rightarrow>
          if c = [] then namei rt follow k cur cs
          else if c = ''.'' then namei rt follow k cur cs
          else if c = ''..'' then namei rt follow k (butlast cur) cs
          else (case map_of es c of
                  None \<Rightarrow> Inl ErrNotExist
                | Some (Symlink t) \<Rightarrow>
                    if cs = [] \<and> \<not> follow then Inr (cur @ [c])
                    else (case k of
                            0 \<Rightarrow> Inl ErrLoop
                          | Suc k' \<Rightarrow>
                              namei rt follow k' (if IsAbs t then [] else cur)
                                (split_path t @ cs))
                | Some m \<Rightarrow> namei rt follow k (cur @ [c]) cs)
      | Some m \<Rightarrow> Inl ErrNotDir)"

definition resolve :: "node \<Rightarrow> string list \<Rightarrow> bool \<Rightarrow> string \<Rightarrow> error + string list" where
  "resolve rt cwd follow p =
     (if p = [] then Inl ErrNotExist
      else namei rt follow MAXSYMLINKS (if IsAbs p then [] else cwd) (split_path p))"

fun node_mode :: "node \<Rightarrow> FileMode" where
  "node_mode (File r c) = ModeRegular"
| "node_mode (Dir r es) = ModeDir"
| "node_mode (Symlink t) = ModeSymlink"
| "node_mode Special = ModeIrregular"

fun node_size :: "node \<Rightarrow> nat" where
  "node_size (File r c) = length c"
| "node_size (Symlink t) = length t"
| "node_size n = 0"

definition node_info :: "string \<Rightarrow> node \<Rightarrow> fs_FileInfo" where
  "node_info name n = \<lparr>fi_Name = name, fi_Size = node_size n, fi_Mode = node_mode n\<rparr>"

definition tree_stat :: "node \<Rightarrow> string list \<Rightarrow> bool \<Rightarrow> string \<Rightarrow> error + fs_FileInfo" where
  "tree_stat rt cwd follow p =
     (case resolve rt cwd follow p of
        Inl e \<Rightarrow> Inl e
      | Inr q \<Rightarrow>
          (case lookup_node rt q of
             None \<Rightarrow> Inl ErrNotExist
           | Some n \<Rightarrow> Inr (node_info (Base p) n)))"

definition tree_readlink :: "node \<Rightarrow> string list \<Rightarrow> string \<Rightarrow> error + string" where
  "tree_readlink rt cwd p =
     (case resolve rt cwd False p of
        Inl e \<Rightarrow> Inl e
      | Inr q \<Rightarrow>
          (case lookup_node rt q of
             Some (Symlink t) \<Rightarrow> Inr t
           | Some n \<Rightarrow> Inl ErrInvalid
           | None \<Rightarrow> Inl ErrNotExist))"

definition tree_readdir :: "node \<Rightarrow> string list \<Rightarrow> string \<Rightarrow> DirEntry list \<times> error option" where
  "tree_readdir rt cwd p =
     (case resolve rt cwd True p of
        Inl e \<Rightarrow> ([], Some e)
      | Inr q \<Rightarrow>
          (case lookup_node rt q of
             Some (Dir r es) \<Rightarrow>
               if r then (map (\<lambda>(name, n). unixDirEntry p name (node_mode n)) es, None)
               else ([], Some ErrPermission)
           | Some n \<Rightarrow> ([], Some ErrNotDir)
           | None \<Rightarrow> ([], Some ErrNotExist)))"

definition tree_readfile :: "node \<Rightarrow> string list \<Rightarrow> string \<Rightarrow> error + string" where
  "tree_readfile rt cwd p =
     (case resolve rt cwd True p of
        Inl e \<Rightarrow> Inl e
      | Inr q \<Rightarrow>
          (case lookup_node rt q of
             Some (File r c) \<Rightarrow> if r then Inr c else Inl ErrPermission
           | Some (Dir r es) \<Rightarrow> Inl ErrIsDir
           | Some n \<Rightarrow> Inl ErrInvalid
           | None \<Rightarrow> Inl ErrNotExist))"

definition tree_os :: "node \<Rightarrow> string list \<Rightarrow> os" where
  "tree_os rt cwd =
     \<lparr>Stat = tree_stat rt cwd True, Lstat = tree_stat rt cwd False,
      Readlink = tree_readlink rt cwd, ReadDir = tree_readdir rt cwd,
      ReadFile = tree_readfile rt cwd\<rparr>"

section \<open>The walker (package walk)\<close>

text \<open>
  A visit callback (\<^verbatim>\<open>WalkDirFunc\<close>) receives the path, the accessor of the lazy stat and an
  error, and returns an error or \<^verbatim>\<open>nil\<close>. What it may do meanwhile is written as a
  program over the operations it has: return with its own state updated, panic, call the
  accessor it was given, or call \<^verbatim>\<open>os.Stat\<close>. The accessor is not an argument of the model's
  callbacks: it is the operation \<open>GetInfo\<close>, interpreted by \<open>run_visit\<close> with the
  accessor of the call at hand.
\<close>

datatype 's visit =
  Return "error option" 's
  | Panic
  | GetInfo "error + fs_FileInfo \<Rightarrow> 's visit"
  | OsStat string "error + fs_FileInfo \<Rightarrow> 's visit"

type_synonym 's WalkDirFunc = "string \<Rightarrow> error option \<Rightarrow> 's \<Rightarrow> 's visit"

text \<open>
  The three accessors the walker passes: \<^verbatim>\<open>nil\<close> (root stat failure), the closure
  \<^verbatim>\<open>getinfo\<close> of \<^verbatim>\<open>walkDir\<close>, which memoizes in the local variable \<^verbatim>\<open>stat\<close>, and the method
  value \<^verbatim>\<open>d.Info\<close>.
\<close>

datatype accessor = nil_info | getinfo string | d_Info DirEntry

text \<open>
  What is observed of a run: the visits (path and error passed) and the system calls, in
  order.
\<close>

datatype event =
  Visit string "error option"
  | CallStat string | CallLstat string | CallReadlink string | CallReadDir string
  | CallReadFile string

datatype 's returned = Returned "error option" 's | Panicked

text \<open>
  Running a callback: \<open>stat\<close> is the variable \<^verbatim>\<open>stat\<close> of the enclosing \<^verbatim>\<open>walkDir\<close> call
  (\<open>None\<close> is \<^verbatim>\<open>nil\<close>). Calling a \<^verbatim>\<open>nil\<close> accessor panics.
\<close>

primrec run_visit ::
  "os \<Rightarrow> accessor \<Rightarrow> 's visit \<Rightarrow> fs_FileInfo option \<Rightarrow> event list
    \<Rightarrow> 's returned \<times> fs_FileInfo option \<times> event list" where
  "run_visit os acc (Return e u) = (\<lambda>stat lg. (Returned e u, stat, lg))"
| "run_visit os acc Panic = (\<lambda>stat lg. (Panicked, stat, lg))"
| "run_visit os acc (OsStat p k) =
     (\<lambda>stat lg. run_visit os acc (k (Stat os p)) stat (lg @ [CallStat p]))"
| "run_visit os acc (GetInfo k) =
     (\<lambda>stat lg.
        case acc of
          nil_info \<Rightarrow> (Panicked, stat, lg)
        | getinfo name \<Rightarrow>
            (case stat of
               Some i \<Rightarrow> run_visit os acc (k (Inr i)) stat lg
             | None \<Rightarrow>
                 (case Stat os name of
                    Inl e \<Rightarrow> run_visit os acc (k (Inl e)) None (lg @ [CallStat name])
                  | Inr i \<Rightarrow> run_visit os acc (k (Inr i)) (Some i) (lg @ [CallStat name])))
        | d_Info d \<Rightarrow>
            (case d of
               statDirEntry info \<Rightarrow> run_visit os acc (k (Inr info)) stat lg
             | unixDirEntry parent name typ \<Rightarrow>
                 run_visit os acc (k (Lstat os (parent @ ''/'' @ name))) stat
                   (lg @ [CallLstat (parent @ ''/'' @ name)])))"

text \<open>
  The state of one traversal: the map \<^verbatim>\<open>visited\<close> (a set of path strings), the events so
  far and the callback's own state.
\<close>

record 's walk_state =
  visited :: "string set"
  events :: "event list"
  user :: 's

datatype outcome = Ok | Failed error | Crashed

text \<open>
  The closure \<^verbatim>\<open>willwalk\<close>: its result, the value it leaves in \<^verbatim>\<open>realname\<close>, and the events.
\<close>

definition willwalk ::
  "os \<Rightarrow> string \<Rightarrow> DirEntry \<Rightarrow> string set \<Rightarrow> event list \<Rightarrow> bool \<times> string \<times> event list" where
  "willwalk os name d vis lg =
     (if d_IsDir d then (name \<notin> vis, name, lg)
      else if d_Type d = ModeSymlink then
        (case Readlink os name of
           Inl e \<Rightarrow> (False, name, lg @ [CallReadlink name])
         | Inr link \<Rightarrow>
             (let realname = (if IsAbs link then link else Join [name, link])
              in if realname \<in> vis then (False, realname, lg @ [CallReadlink name])
                 else (case Stat os realname of
                         Inl e \<Rightarrow>
                           (False, realname, lg @ [CallReadlink name, CallStat realname])
                       | Inr finfo \<Rightarrow>
                           (IsDir finfo, realname,
                            lg @ [CallReadlink name, CallStat realname]))))
      else (False, name, lg))"

text \<open>The loop over the entries of a directory; \<open>rec\<close> is the recursive call.\<close>

fun range_dirs ::
  "(string \<Rightarrow> DirEntry \<Rightarrow> 's walk_state \<Rightarrow> (outcome \<times> 's walk_state) option)
    \<Rightarrow> string \<Rightarrow> DirEntry list \<Rightarrow> 's walk_state \<Rightarrow> (outcome \<times> 's walk_state) option" where
  "range_dirs rec name [] s = Some (Ok, s)"
| "range_dirs rec name (d1 # ds) s =
     (case rec (Join [name, d_Name d1]) d1 s of
        None \<Rightarrow> None
      | Some (Ok, s') \<Rightarrow> range_dirs rec name ds s'
      | Some (Failed e, s') \<Rightarrow> if e = SkipDir then Some (Ok, s') else Some (Failed e, s')
      | Some (Crashed, s') \<Rightarrow> Some (Crashed, s'))"

text \<open>
  What \<^verbatim>\<open>walkDir\<close> returns when the callback returned the error \<open>err\<close>: \<^verbatim>\<open>stat.IsDir()\<close> is
  a method call on the interface value \<^verbatim>\<open>stat\<close>, which panics when \<^verbatim>\<open>stat\<close> is \<^verbatim>\<open>nil\<close>.
\<close>

definition after_error :: "error \<Rightarrow> fs_FileInfo option \<Rightarrow> outcome" where
  "after_error err stat =
     (if err = SkipDir then
        (case stat of
           None \<Rightarrow> Crashed
         | Some i \<Rightarrow> if IsDir i then Ok else Failed err)
      else Failed err)"

text \<open>
  \<^verbatim>\<open>walkDir\<close>. The first argument bounds the depth of the recursion: \<open>None\<close> means the bound
  was reached, not a result of the program.
\<close>

primrec walkDir ::
  "nat \<Rightarrow> os \<Rightarrow> 's WalkDirFunc \<Rightarrow> string \<Rightarrow> DirEntry \<Rightarrow> 's walk_state
    \<Rightarrow> (outcome \<times> 's walk_state) option" where
  "walkDir 0 os fn name d s = None"
| "walkDir (Suc n) os fn name d s =
     (case run_visit os (getinfo name) (fn name None (user s)) None
             (events s @ [Visit name None]) of
        (Panicked, stat, lg) \<Rightarrow> Some (Crashed, s\<lparr>events := lg\<rparr>)
      | (Returned (Some err) u, stat, lg) \<Rightarrow>
          Some (after_error err stat, s\<lparr>events := lg, user := u\<rparr>)
      | (Returned None u, stat, lg) \<Rightarrow>
          (case willwalk os name d (visited s) lg of
             (ww, realname, lg2) \<Rightarrow>
               if ww then
                 (case ReadDir os name of
                    (dirs, None) \<Rightarrow>
                      range_dirs (walkDir n os fn) name dirs
                        \<lparr>visited = insert realname (visited s),
                         events = lg2 @ [CallReadDir name], user = u\<rparr>
                  | (dirs, Some rerr) \<Rightarrow>
                      (case run_visit os (d_Info d) (fn name (Some rerr) u) stat
                              (lg2 @ [CallReadDir name, Visit name (Some rerr)]) of
                         (Panicked, stat2, lg3) \<Rightarrow>
                           Some (Crashed,
                             \<lparr>visited = insert realname (visited s), events = lg3, user = u\<rparr>)
                       | (Returned (Some err2) u2, stat2, lg3) \<Rightarrow>
                           Some (Failed err2,
                             \<lparr>visited = insert realname (visited s), events = lg3, user = u2\<rparr>)
                       | (Returned None u2, stat2, lg3) \<Rightarrow>
                           range_dirs (walkDir n os fn) name dirs
                             \<lparr>visited = insert realname (visited s), events = lg3,
                              user = u2\<rparr>))
               else Some (Ok, s\<lparr>events := lg2, user := u\<rparr>)))"

text \<open>\<^verbatim>\<open>WalkDir\<close>: a fresh \<^verbatim>\<open>visited\<close> map, one stat of the root, then the recursion.\<close>

definition WalkDir ::
  "nat \<Rightarrow> os \<Rightarrow> 's WalkDirFunc \<Rightarrow> string \<Rightarrow> 's \<Rightarrow> (outcome \<times> 's walk_state) option" where
  "WalkDir n os fn root u0 =
     (case Stat os root of
        Inl err \<Rightarrow>
          (case run_visit os nil_info (fn root (Some err) u0) None
                  [CallStat root, Visit root (Some err)] of
             (Panicked, stat, lg) \<Rightarrow> Some (Crashed, \<lparr>visited = {}, events = lg, user = u0\<rparr>)
           | (Returned None u, stat, lg) \<Rightarrow>
               Some (Ok, \<lparr>visited = {}, events = lg, user = u\<rparr>)
           | (Returned (Some e) u, stat, lg) \<Rightarrow>
               Some (Failed e, \<lparr>visited = {}, events = lg, user = u\<rparr>))
      | Inr info \<Rightarrow>
          walkDir n os fn root (statDirEntry info)
            \<lparr>visited = {}, events = [CallStat root], user = u0\<rparr>)"

text \<open>
  Whether a callback, run to its end, calls the accessor it was given.
\<close>

primrec invokes_accessor :: "os \<Rightarrow> 's visit \<Rightarrow> bool" where
  "invokes_accessor os (Return e u) = False"
| "invokes_accessor os Panic = False"
| "invokes_accessor os (GetInfo k) = True"
| "invokes_accessor os (OsStat p k) = invokes_accessor os (k (Stat os p))"

text \<open>The paths the callback was called with, in order.\<close>

fun visits :: "event list \<Rightarrow> string list" where
  "visits [] = []"
| "visits (Visit p e # evs) = p # visits evs"
| "visits (ev # evs) = visits evs"

definition walk_visits :: "(outcome \<times> 's walk_state) option \<Rightarrow> (outcome \<times> string list) option" where
  "walk_visits r = map_option (\<lambda>(out, s). (out, visits (events s))) r"

section \<open>Search (handleSearch)\<close>

text \<open>
  The program's \<^verbatim>\<open>FileInfo\<close>: the embedded \<^verbatim>\<open>fs.FileInfo\<close>, the path shown and the mode of a
  link's target. The zero value has \<^verbatim>\<open>TargetMode\<close> 0.
\<close>

record FileInfo =
  f_info :: "fs_FileInfo option"
  f_path :: string
  f_TargetMode :: FileMode

definition zero_FileInfo :: FileInfo where
  "zero_FileInfo = \<lparr>f_info = None, f_path = [], f_TargetMode = ModeRegular\<rparr>"

text \<open>
  \<^verbatim>\<open>PopulateFrom\<close>: stores the information and, for a link, stats the path for the target's
  mode. The error is returned with the value.
\<close>

definition PopulateFrom :: "os \<Rightarrow> string \<Rightarrow> fs_FileInfo \<Rightarrow> FileInfo \<Rightarrow> FileInfo \<times> error option" where
  "PopulateFrom os fpath i f =
     (if fi_Mode i = ModeSymlink then
        (case Stat os fpath of
           Inl err \<Rightarrow> (f\<lparr>f_info := Some i\<rparr>, Some err)
         | Inr stat \<Rightarrow> (f\<lparr>f_info := Some i, f_TargetMode := fi_Mode stat\<rparr>, None))
      else (f\<lparr>f_info := Some i\<rparr>, None))"

text \<open>The same inside a visit callback, where the stat is an operation of the callback.\<close>

definition PopulateFrom_visit ::
  "string \<Rightarrow> fs_FileInfo \<Rightarrow> FileInfo \<Rightarrow> (FileInfo \<times> error option \<Rightarrow> 's visit) \<Rightarrow> 's visit" where
  "PopulateFrom_visit fpath i f k =
     (if fi_Mode i = ModeSymlink then
        OsStat fpath (\<lambda>r.
          case r of
            Inl err \<Rightarrow> k (f\<lparr>f_info := Some i\<rparr>, Some err)
          | Inr stat \<Rightarrow> k (f\<lparr>f_info := Some i, f_TargetMode := fi_Mode stat\<rparr>, None))
      else k (f\<lparr>f_info := Some i\<rparr>, None))"

text \<open>
  Package \<^verbatim>\<open>regexp\<close> is a parameter: \<open>Compile\<close> returns a compiled expression or the
  message of its error, \<open>MatchString\<close> matches one against a string.
\<close>

record 'r regexp =
  Compile :: "string \<Rightarrow> string + 'r"
  MatchString :: "'r \<Rightarrow> string \<Rightarrow> bool"

text \<open>
  The test of the callback \<^verbatim>\<open>fn\<close> of \<^verbatim>\<open>handleSearch\<close>: \<open>fpath\<close> is the path the walker
  passes, \<open>name\<close> the path relative to the directory searched, \<open>exp\<close> the compiled
  expression (\<open>None\<close> is \<^verbatim>\<open>nil\<close>).
\<close>

definition matched :: "'r regexp \<Rightarrow> 'r option \<Rightarrow> string \<Rightarrow> string \<Rightarrow> string \<Rightarrow> bool" where
  "matched re exp lowerq fpath name =
     (case exp of
        Some e \<Rightarrow> MatchString re e fpath
      | None \<Rightarrow> Contains (ToLower (snd (Split name))) lowerq)"

text \<open>
  The callback \<^verbatim>\<open>fn\<close>. Its state is the sequence of values sent on the channel
  \<^verbatim>\<open>results\<close>; the consumer receives exactly these, in this order.
\<close>

definition search_visit ::
  "'r regexp \<Rightarrow> string \<Rightarrow> 'r option \<Rightarrow> string \<Rightarrow> string \<Rightarrow> FileInfo list \<Rightarrow> FileInfo list visit" where
  "search_visit re basepath exp lowerq fpath results =
     (case Rel basepath fpath of
        None \<Rightarrow> Panic
      | Some name \<Rightarrow>
          if name = ''.'' then Return None results
          else if matched re exp lowerq fpath name then
            GetInfo (\<lambda>r.
              case r of
                Inl err \<Rightarrow> Return (Some err) results
              | Inr info \<Rightarrow>
                  PopulateFrom_visit fpath info zero_FileInfo (\<lambda>(finfo, e).
                    Return None (results @ [finfo\<lparr>f_path := name\<rparr>])))
          else Return None results)"

definition search_fn ::
  "'r regexp \<Rightarrow> string \<Rightarrow> 'r option \<Rightarrow> string \<Rightarrow> FileInfo list WalkDirFunc" where
  "search_fn re basepath exp lowerq fpath err results =
     (case err of
        None \<Rightarrow> search_visit re basepath exp lowerq fpath results
      | Some e \<Rightarrow>
          if e = ErrPermission then search_visit re basepath exp lowerq fpath results
          else Return (Some e) results)"

text \<open>
  \<^verbatim>\<open>handleSearch\<close>. The response is an error with its status code, or the search page fed
  by the channel; with it come the error the traversal ended with and the events. The
  producer and the template run concurrently; the model runs the traversal to its end and
  hands the page all results. The banner is a random line of a file and is left out of the
  page; reading that file is the last event.
\<close>

record SearchContext =
  sc_Name :: string
  sc_Path :: string
  sc_Query :: string
  sc_Results :: "FileInfo list"

datatype response = HttpError nat string | SearchPage SearchContext

record search_run =
  sr_response :: response
  sr_walk :: "outcome option"
  sr_events :: "event list"

definition StatusBadRequest :: nat where
  "StatusBadRequest = 400"

definition run_search ::
  "nat \<Rightarrow> 'r regexp \<Rightarrow> os \<Rightarrow> string \<Rightarrow> string \<Rightarrow> string \<Rightarrow> 'r option \<Rightarrow> string
    \<Rightarrow> search_run option" where
  "run_search n re os dir relpath query exp lowerq =
     (case WalkDir n os (search_fn re (Join [dir, relpath]) exp lowerq)
             (Join [dir, relpath]) [] of
        None \<Rightarrow> None
      | Some (out, s) \<Rightarrow>
          Some \<lparr>sr_response =
                  SearchPage \<lparr>sc_Name = query, sc_Path = relpath, sc_Query = query,
                    sc_Results = user s\<rparr>,
                sr_walk = Some out,
                sr_events = events s @ [CallReadFile (Join [dir, ''banners''])]\<rparr>)"

definition handleSearch ::
  "nat \<Rightarrow> 'r regexp \<Rightarrow> os \<Rightarrow> string \<Rightarrow> string \<Rightarrow> string \<Rightarrow> bool \<Rightarrow> search_run option" where
  "handleSearch n re os dir relpath query isregexp =
     (if isregexp then
        (case Compile re query of
           Inl err \<Rightarrow>
             Some \<lparr>sr_response = HttpError StatusBadRequest err, sr_walk = None,
                   sr_events = []\<rparr>
         | Inr exp \<Rightarrow> run_search n re os dir relpath query (Some exp) [])
      else run_search n re os dir relpath query None (ToLower query))"

text \<open>
  A fragment of package \<^verbatim>\<open>regexp\<close> for concrete runs: a literal, after an optional \<^verbatim>\<open>^\<close>
  that anchors it at the start; the pattern \<^verbatim>\<open>(\<close> does not compile.
\<close>

definition literal_regexp :: "string regexp" where
  "literal_regexp =
     \<lparr>Compile = (\<lambda>q. if q = ''('' then Inl ''error parsing regexp: missing closing )''
                      else Inr q),
      MatchString = (\<lambda>e s. case e of
                              [] \<Rightarrow> True
                            | c # lit \<Rightarrow> if c = CHR ''^'' then HasPrefix s lit
                                          else Contains s (c # lit))\<rparr>"

text \<open>The paths of the results a search delivered, in order.\<close>

definition result_paths :: "search_run option \<Rightarrow> string list option" where
  "result_paths r =
     map_option (\<lambda>sr. case sr_response sr of
                         SearchPage c \<Rightarrow> map f_path (sc_Results c)
                       | HttpError code msg \<Rightarrow> []) r"

section \<open>The directory index (IndexContext.Populate)\<close>

text \<open>
  Methods of \<^verbatim>\<open>FileInfo\<close>. \<^verbatim>\<open>Name\<close> and \<^verbatim>\<open>Mode\<close> are those of the embedded \<^verbatim>\<open>fs.FileInfo\<close>,
  which \<^verbatim>\<open>PopulateFrom\<close> has set in every value the program uses.
\<close>

definition f_Name :: "FileInfo \<Rightarrow> string" where
  "f_Name f = (case f_info f of Some i \<Rightarrow> fi_Name i | None \<Rightarrow> [])"

definition f_Mode :: "FileInfo \<Rightarrow> FileMode" where
  "f_Mode f = (case f_info f of Some i \<Rightarrow> fi_Mode i | None \<Rightarrow> ModeRegular)"

definition mode :: "FileInfo \<Rightarrow> FileMode" where
  "mode f = (if f_Mode f = ModeSymlink then f_TargetMode f else f_Mode f)"

definition GoesToDir :: "FileInfo \<Rightarrow> bool" where
  "GoesToDir f = (mode f = ModeDir)"

text \<open>
  The comparison given to \<^verbatim>\<open>sort.Slice\<close>: entries that act as directories first, then by
  name (Go compares strings byte by byte).
\<close>

definition less_files :: "FileInfo \<Rightarrow> FileInfo \<Rightarrow> bool" where
  "less_files a b =
     (if GoesToDir a = GoesToDir b then f_Name a < f_Name b else GoesToDir a)"

text \<open>
  \<^verbatim>\<open>sort.Slice\<close>, as a sort by insertion. The entries of one directory have different
  names, so the comparison orders any two of them, and every sorting algorithm returns the
  same list (lemma \<open>sort_Slice_unique\<close> below).
\<close>

fun insert_less :: "('a \<Rightarrow> 'a \<Rightarrow> bool) \<Rightarrow> 'a \<Rightarrow> 'a list \<Rightarrow> 'a list" where
  "insert_less lt x [] = [x]"
| "insert_less lt x (y # ys) = (if lt y x then y # insert_less lt x ys else x # y # ys)"

definition sort_Slice :: "('a \<Rightarrow> 'a \<Rightarrow> bool) \<Rightarrow> 'a list \<Rightarrow> 'a list" where
  "sort_Slice lt xs = foldr (insert_less lt) xs []"

text \<open>The key that the comparison orders by: acts as a file, then the name.\<close>

definition sort_key_of :: "FileInfo \<Rightarrow> bool \<times> string" where
  "sort_key_of f = (\<not> GoesToDir f, f_Name f)"

text \<open>\<^verbatim>\<open>html.EscapeString\<close>\<close>

definition escape_char :: "char \<Rightarrow> string" where
  "escape_char c =
     (if c = CHR ''&'' then ''&amp;''
      else if c = CHR 0x27 then ''&#39;''
      else if c = CHR ''<'' then ''&lt;''
      else if c = CHR ''>'' then ''&gt;''
      else if c = CHR 0x22 then ''&#34;''
      else [c])"

definition EscapeString :: "string \<Rightarrow> string" where
  "EscapeString s = concat (map escape_char s)"

text \<open>
  The loop that selects the README. \<open>Convert\<close> is the markdown converter (goldmark with
  the GFM extension and raw HTML allowed), a parameter. The loop ends at the first entry
  whose lower-cased name is one of the three, with its rendering or with the error of
  reading or converting it.
\<close>

fun select_readme ::
  "os \<Rightarrow> (string \<Rightarrow> error + string) \<Rightarrow> string \<Rightarrow> string \<Rightarrow> FileInfo list
    \<Rightarrow> error + string option" where
  "select_readme os Convert root dirpath [] = Inr None"
| "select_readme os Convert root dirpath (finfo # rest) =
     (if ToLower (f_Name finfo) = ''readme.txt'' then
        (case ReadFile os (Join [root, dirpath, f_Name finfo]) of
           Inl err \<Rightarrow> Inl err
         | Inr p \<Rightarrow> Inr (Some (''<pre>'' @ EscapeString p @ ''</pre>'')))
      else if ToLower (f_Name finfo) = ''readme.html'' then
        (case ReadFile os (Join [root, dirpath, f_Name finfo]) of
           Inl err \<Rightarrow> Inl err
         | Inr p \<Rightarrow> Inr (Some p))
      else if ToLower (f_Name finfo) = ''readme.md'' then
        (case ReadFile os (Join [root, dirpath, f_Name finfo]) of
           Inl err \<Rightarrow> Inl err
         | Inr p \<Rightarrow>
             (case Convert p of
                Inl err \<Rightarrow> Inl err
              | Inr html \<Rightarrow> Inr (Some html)))
      else select_readme os Convert root dirpath rest)"

record IndexContext =
  ic_Name :: string
  ic_Path :: string
  ic_Files :: "FileInfo list"
  ic_ReadMe :: "string option"
  ic_Root :: bool

text \<open>
  \<^verbatim>\<open>Populate\<close>, on the entries \<^verbatim>\<open>Readdir\<close> returned. The banner is left out, as in the
  search page; an error of reading it is only logged.
\<close>

definition populated :: "os \<Rightarrow> string \<Rightarrow> string \<Rightarrow> fs_FileInfo list \<Rightarrow> FileInfo list" where
  "populated os root dirpath files =
     map (\<lambda>f. fst (PopulateFrom os (Join [root, dirpath, fi_Name f]) f zero_FileInfo)) files"

definition Populate ::
  "os \<Rightarrow> (string \<Rightarrow> error + string) \<Rightarrow> fs_FileInfo list \<Rightarrow> string \<Rightarrow> string
    \<Rightarrow> error + IndexContext" where
  "Populate os Convert files dirpath root =
     (let Files = sort_Slice less_files (populated os root dirpath files)
      in case select_readme os Convert root dirpath Files of
           Inl err \<Rightarrow> Inl err
         | Inr readme \<Rightarrow>
             Inr \<lparr>ic_Name = snd (Split dirpath), ic_Path = dirpath, ic_Files = Files,
                  ic_ReadMe = readme, ic_Root = (dirpath = ''/'')\<rparr>)"

text \<open>The README of a result, or its error.\<close>

definition readme_of :: "error + IndexContext \<Rightarrow> error + string option" where
  "readme_of r = (case r of Inl err \<Rightarrow> Inl err | Inr d \<Rightarrow> Inr (ic_ReadMe d))"

text \<open>
  The statement of the selection to compare with: the first entry of the listing whose
  lower-cased name is one of the three names decides, and \<open>render_readme\<close> is its rendering.
\<close>

definition is_readme :: "FileInfo \<Rightarrow> bool" where
  "is_readme f = (ToLower (f_Name f) \<in> {''readme.txt'', ''readme.html'', ''readme.md''})"

definition render_readme ::
  "os \<Rightarrow> (string \<Rightarrow> error + string) \<Rightarrow> string \<Rightarrow> string \<Rightarrow> FileInfo \<Rightarrow> error + string option" where
  "render_readme os Convert root dirpath f =
     (case ReadFile os (Join [root, dirpath, f_Name f]) of
        Inl err \<Rightarrow> Inl err
      | Inr p \<Rightarrow>
          if ToLower (f_Name f) = ''readme.txt'' then
            Inr (Some (''<pre>'' @ EscapeString p @ ''</pre>''))
          else if ToLower (f_Name f) = ''readme.html'' then Inr (Some p)
          else (case Convert p of Inl err \<Rightarrow> Inl err | Inr html \<Rightarrow> Inr (Some html)))"

definition first_readme ::
  "os \<Rightarrow> (string \<Rightarrow> error + string) \<Rightarrow> string \<Rightarrow> string \<Rightarrow> FileInfo list \<Rightarrow> error + string option" where
  "first_readme os Convert root dirpath listing =
     (case find is_readme listing of
        None \<Rightarrow> Inr None
      | Some f \<Rightarrow> render_readme os Convert root dirpath f)"

text \<open>
  For concrete runs: a converter that wraps its input in a paragraph, as markdown does with
  one line of plain text, and the entries of a directory of the tree as \<^verbatim>\<open>Readdir\<close> returns
  them.
\<close>

definition wrap_paragraph :: "string \<Rightarrow> error + string" where
  "wrap_paragraph p = Inr (''<p>'' @ p @ ''</p>'')"

definition Readdir :: "node \<Rightarrow> string list \<Rightarrow> fs_FileInfo list" where
  "Readdir rt q =
     (case lookup_node rt q of
        Some (Dir r es) \<Rightarrow> map (\<lambda>(name, n). node_info name n) es
      | Some n \<Rightarrow> []
      | None \<Rightarrow> [])"

text \<open>
  \<^verbatim>\<open>/srv/d\<close> holds \<^verbatim>\<open>README.txt\<close> and \<^verbatim>\<open>README.md\<close>; \<^verbatim>\<open>/srv/e\<close> holds these and
  \<^verbatim>\<open>README.html\<close>.
\<close>

definition readme_tree :: node where
  "readme_tree =
     Dir True [(''srv'', Dir True
       [(''d'', Dir True
           [(''README.md'', File True ''hello''), (''README.txt'', File True ''plain <text>''),
            (''sub'', Dir True [])]),
        (''e'', Dir True
           [(''README.html'', File True ''<b>bold</b>''), (''README.md'', File True ''hello''),
            (''README.txt'', File True ''plain'')])])]"

section \<open>Archives (archiveZIP, archiveTarGZ)\<close>

text \<open>
  Both functions walk \<^verbatim>\<open>os.DirFS(root)\<close> with \<^verbatim>\<open>fs.WalkDir\<close> of package \<^verbatim>\<open>io/fs\<close>, which does
  not follow links: the file system walked is the tree below the directory \<^verbatim>\<open>root\<close>, here
  the node \<open>t\<close>.

  \<^verbatim>\<open>os.DirFS\<close> opens a name only when \<^verbatim>\<open>fs.ValidPath\<close> accepts it, and fails with
  \<^verbatim>\<open>ErrInvalid\<close> otherwise. \<open>ValidString\<close> is \<^verbatim>\<open>utf8.ValidString\<close>: bytes below \<^verbatim>\<open>0x80\<close> stand
  alone; \<open>utf8_first\<close> gives, for any other first byte of an encoding, the number of bytes
  of the encoding and the range of its second byte (the table \<^verbatim>\<open>first\<close> with \<^verbatim>\<open>acceptRanges\<close>
  of package \<^verbatim>\<open>unicode/utf8\<close>); the bytes after the second are in \<^verbatim>\<open>0x80\<close>..\<^verbatim>\<open>0xBF\<close>.
\<close>

definition utf8_first :: "nat \<Rightarrow> (nat \<times> nat \<times> nat) option" where
  "utf8_first b =
     (if 0xC2 \<le> b \<and> b \<le> 0xDF then Some (2, 0x80, 0xBF)
      else if b = 0xE0 then Some (3, 0xA0, 0xBF)
      else if b = 0xED then Some (3, 0x80, 0x9F)
      else if 0xE1 \<le> b \<and> b \<le> 0xEF then Some (3, 0x80, 0xBF)
      else if b = 0xF0 then Some (4, 0x90, 0xBF)
      else if 0xF1 \<le> b \<and> b \<le> 0xF3 then Some (4, 0x80, 0xBF)
      else if b = 0xF4 then Some (4, 0x80, 0x8F)
      else None)"

definition in_range :: "nat \<Rightarrow> nat \<Rightarrow> char \<Rightarrow> bool" where
  "in_range lo hi c = (lo \<le> of_char c \<and> (of_char c :: nat) \<le> hi)"

fun ValidString :: "string \<Rightarrow> bool" where
  "ValidString [] = True"
| "ValidString (c # cs) =
     (if (of_char c :: nat) < 0x80 then ValidString cs
      else (case utf8_first (of_char c) of
              None \<Rightarrow> False
            | Some (sz, lo, hi) \<Rightarrow>
                sz - 1 \<le> length cs
                \<and> in_range lo hi (hd cs)
                \<and> list_all (in_range 0x80 0xBF) (take (sz - 2) (tl cs))
                \<and> ValidString (drop (sz - 1) cs)))"

text \<open>
  \<^verbatim>\<open>fs.ValidPath\<close>: valid UTF-8, and either \<^verbatim>\<open>.\<close> or slash-separated elements none of which
  is empty, \<^verbatim>\<open>.\<close> or \<^verbatim>\<open>..\<close>.
\<close>

definition ValidPath :: "string \<Rightarrow> bool" where
  "ValidPath name =
     (ValidString name
      \<and> (name = ''.''
         \<or> list_all (\<lambda>elem. elem \<noteq> [] \<and> elem \<noteq> ''.'' \<and> elem \<noteq> ''..'') (split_path name)))"

text \<open>
  \<open>fs_walkDir\<close> is \<^verbatim>\<open>fs.walkDir\<close>: the callback first; then, for a directory, its entries in
  the order of \<^verbatim>\<open>ReadDir\<close>, or a second call of the callback with the error of reading it.
  \<^verbatim>\<open>fs.ReadDir\<close> on \<^verbatim>\<open>os.DirFS\<close> opens the directory by its name: the error is \<^verbatim>\<open>ErrInvalid\<close>
  for a name \<^verbatim>\<open>fs.ValidPath\<close> refuses, and the permission error for a valid name of a
  directory that may not be read.
\<close>

type_synonym 'a fs_WalkDirFunc = "string \<Rightarrow> DirEntry \<Rightarrow> error option \<Rightarrow> 'a \<Rightarrow> error option \<times> 'a"

fun fs_walkDir :: "'a fs_WalkDirFunc \<Rightarrow> string \<Rightarrow> DirEntry \<Rightarrow> node \<Rightarrow> 'a \<Rightarrow> error option \<times> 'a"
  and fs_walk_entries ::
    "'a fs_WalkDirFunc \<Rightarrow> string \<Rightarrow> (string \<times> node) list \<Rightarrow> 'a \<Rightarrow> error option \<times> 'a" where
  "fs_walkDir fn name d (Dir r es) s =
     (case fn name d None s of
        (Some err, s1) \<Rightarrow> (if err = SkipDir \<and> d_IsDir d then None else Some err, s1)
      | (None, s1) \<Rightarrow>
          if d_IsDir d then
            (if ValidPath name \<and> r then fs_walk_entries fn name es s1
             else (case fn name d (Some (if ValidPath name then ErrPermission else ErrInvalid)) s1
                   of (Some err, s2) \<Rightarrow>
                       (if err = SkipDir \<and> d_IsDir d then None else Some err, s2)
                   | (None, s2) \<Rightarrow> (None, s2)))
          else (None, s1))"
| "fs_walkDir fn name d (File r c) s =
     (case fn name d None s of
        (Some err, s1) \<Rightarrow> (if err = SkipDir \<and> d_IsDir d then None else Some err, s1)
      | (None, s1) \<Rightarrow> (None, s1))"
| "fs_walkDir fn name d (Symlink tg) s =
     (case fn name d None s of
        (Some err, s1) \<Rightarrow> (if err = SkipDir \<and> d_IsDir d then None else Some err, s1)
      | (None, s1) \<Rightarrow> (None, s1))"
| "fs_walkDir fn name d Special s =
     (case fn name d None s of
        (Some err, s1) \<Rightarrow> (if err = SkipDir \<and> d_IsDir d then None else Some err, s1)
      | (None, s1) \<Rightarrow> (None, s1))"
| "fs_walk_entries fn name [] s = (None, s)"
| "fs_walk_entries fn name ((nm, n1) # es) s =
     (case fs_walkDir fn (Join [name, nm]) (unixDirEntry name nm (node_mode n1)) n1 s of
        (Some err, s1) \<Rightarrow> (if err = SkipDir then None else Some err, s1)
      | (None, s1) \<Rightarrow> fs_walk_entries fn name es s1)"

text \<open>\<^verbatim>\<open>fs.WalkDir(fsys, ".", fn)\<close>: \<^verbatim>\<open>fs.SkipDir\<close> from the root is \<^verbatim>\<open>nil\<close>.\<close>

definition fs_WalkDir :: "'a fs_WalkDirFunc \<Rightarrow> node \<Rightarrow> 'a \<Rightarrow> error option \<times> 'a" where
  "fs_WalkDir fn t s =
     (case fs_walkDir fn ''.'' (statDirEntry (node_info ''.'' t)) t s of
        (Some err, s1) \<Rightarrow> (if err = SkipDir then None else Some err, s1)
      | (None, s1) \<Rightarrow> (None, s1))"

text \<open>
  \<^verbatim>\<open>fsys.Open(fpath)\<close> and \<^verbatim>\<open>f.Stat()\<close> on a path the walk passes, with the content read:
  \<^verbatim>\<open>ErrInvalid\<close> for a name \<^verbatim>\<open>fs.ValidPath\<close> refuses.
\<close>

definition dirfs_Open :: "node \<Rightarrow> string \<Rightarrow> error + fs_FileInfo \<times> string" where
  "dirfs_Open t fpath =
     (if \<not> ValidPath fpath then Inl ErrInvalid
      else (case lookup_node t (split_path fpath) of
              None \<Rightarrow> Inl ErrNotExist
            | Some (File r c) \<Rightarrow>
                if r then Inr (node_info (Base fpath) (File r c), c) else Inl ErrPermission
            | Some n \<Rightarrow> Inl ErrInvalid))"

text \<open>
  The header of an archive member (\<^verbatim>\<open>zip.FileInfoHeader\<close>, \<^verbatim>\<open>tar.FileInfoHeader\<close>): its name
  and size. An archive is the sequence of members written, each a header and the bytes
  copied after it; this is what a reader of the format returns. The container formats and
  their readers are library code; writing to the output does not fail in the model.
\<close>

record Header =
  h_Name :: string
  h_Size :: nat

definition FileInfoHeader :: "fs_FileInfo \<Rightarrow> Header" where
  "FileInfoHeader info = \<lparr>h_Name = fi_Name info, h_Size = fi_Size info\<rparr>"

type_synonym archive = "(Header \<times> string) list"


text \<open>The callback of \<^verbatim>\<open>archiveZIP\<close> (it skips entries with \<^verbatim>\<open>d.Type() != 0\<close>).\<close>

definition zip_visit :: "node \<Rightarrow> archive fs_WalkDirFunc" where
  "zip_visit t fpath d err w =
     (case err of
        Some e \<Rightarrow> (Some e, w)
      | None \<Rightarrow>
          if d_Type d = ModeRegular then
            (case dirfs_Open t fpath of
               Inl e \<Rightarrow> (Some e, w)
             | Inr (info, content) \<Rightarrow>
                 (None, w @ [((FileInfoHeader info)\<lparr>h_Name := fpath\<rparr>, content)]))
          else (None, w))"

definition archiveZIP :: "node \<Rightarrow> error option \<times> archive" where
  "archiveZIP t = fs_WalkDir (zip_visit t) t []"




text \<open>
  To compare with: the regular files of a tree, each with the names on the way from the
  root joined by slashes, and its content.
\<close>

fun regular_files :: "string list \<Rightarrow> node \<Rightarrow> (string \<times> string) list"
  and regular_files_in :: "string list \<Rightarrow> (string \<times> node) list \<Rightarrow> (string \<times> string) list" where
  "regular_files cs (File r c) = [(join_slash cs, c)]"
| "regular_files cs (Dir r es) = regular_files_in cs es"
| "regular_files cs (Symlink tg) = []"
| "regular_files cs Special = []"
| "regular_files_in cs [] = []"
| "regular_files_in cs ((nm, n) # es) = regular_files (cs @ [nm]) n @ regular_files_in cs es"

text \<open>
  The name \<^verbatim>\<open>fs.WalkDir\<close> passes for the entry reached from the root by the names \<open>cs\<close>,
  and the member of an archive for a path and a content.
\<close>

definition walk_name :: "string list \<Rightarrow> string" where
  "walk_name cs = (if cs = [] then ''.'' else join_slash cs)"


text \<open>
  Trees of a real file system: a name is not empty, is not \<^verbatim>\<open>.\<close> or \<^verbatim>\<open>..\<close> and has neither a
  slash nor a zero byte; the names of one directory differ and are listed in the order of
  \<^verbatim>\<open>ReadDir\<close>, sorted as byte strings.
\<close>

definition valid_name :: "string \<Rightarrow> bool" where
  "valid_name nm =
     (nm \<noteq> [] \<and> nm \<noteq> ''.'' \<and> nm \<noteq> ''..'' \<and> CHR ''/'' \<notin> set nm \<and> CHR 0x00 \<notin> set nm)"

fun wf_tree :: "node \<Rightarrow> bool"
  and wf_entries :: "(string \<times> node) list \<Rightarrow> bool" where
  "wf_tree (Dir r es) = (distinct (map fst es) \<and> sorted (map fst es) \<and> wf_entries es)"
| "wf_tree n = True"
| "wf_entries [] = True"
| "wf_entries ((nm, n) # es) = (valid_name nm \<and> wf_tree n \<and> wf_entries es)"




section \<open>Concrete file systems and callbacks\<close>

text \<open>A callback that accepts every entry and never asks for its stat.\<close>

definition visit_all :: "unit WalkDirFunc" where
  "visit_all p e u = Return None u"

text \<open>
  \<^verbatim>\<open>/srv/r\<close> holds a file \<^verbatim>\<open>f\<close> and a link \<^verbatim>\<open>l\<close> to \<^verbatim>\<open>/srv\<close>, an ancestor of the link.
\<close>

definition cycle_tree :: node where
  "cycle_tree =
     Dir True [(''srv'', Dir True [(''r'', Dir True
       [(''f'', File True ''hello''), (''l'', Symlink ''/srv'')])])]"

text \<open>\<^verbatim>\<open>/r\<close> holds a file \<^verbatim>\<open>f\<close> and a link \<^verbatim>\<open>l\<close> to \<^verbatim>\<open>.\<close>, the directory \<^verbatim>\<open>/r\<close> itself.\<close>

definition dot_tree :: node where
  "dot_tree = Dir True [(''r'', Dir True [(''f'', File True ''hello''), (''l'', Symlink ''.'')])]"

text \<open>
  \<^verbatim>\<open>/r\<close> holds a link \<^verbatim>\<open>l\<close> with the relative target \<^verbatim>\<open>sub\<close> and the directory \<^verbatim>\<open>sub\<close>,
  which holds a file.
\<close>

definition link_tree :: node where
  "link_tree =
     Dir True [(''r'', Dir True
       [(''l'', Symlink ''sub''), (''sub'', Dir True [(''f'', File True ''x'')])])]"

text \<open>\<^verbatim>\<open>/srv/docs\<close> holds the file \<^verbatim>\<open>notes\<close>.\<close>

definition docs_tree :: node where
  "docs_tree = Dir True [(''srv'', Dir True [(''docs'', Dir True [(''notes'', File True ''x'')])])]"

text \<open>\<^verbatim>\<open>/srv\<close> holds a file and the directory \<^verbatim>\<open>secret\<close>, which may not be read.\<close>

definition secret_tree :: node where
  "secret_tree =
     Dir True [(''srv'', Dir True
       [(''notes'', File True ''x''), (''secret'', Dir False [(''key'', File True ''k'')])])]"

text \<open>
  \<^verbatim>\<open>/r\<close> holds the files \<^verbatim>\<open>a\<close> and \<^verbatim>\<open>b\<close> and the directory \<^verbatim>\<open>c\<close>. The callback \<open>skip_at\<close>
  asks for the stat of the entry at one path and returns \<^verbatim>\<open>fs.SkipDir\<close> there; \<open>skip_blind\<close>
  returns it without asking; \<open>fail_at\<close> returns another error.
\<close>

definition files_tree :: node where
  "files_tree =
     Dir True [(''r'', Dir True
       [(''a'', File True ''1''), (''b'', File True ''2''),
        (''c'', Dir True [(''x'', File True ''3'')])])]"

definition skip_at :: "string \<Rightarrow> unit WalkDirFunc" where
  "skip_at q p e u = (if p = q then GetInfo (\<lambda>r. Return (Some SkipDir) u) else Return None u)"

definition skip_blind :: "string \<Rightarrow> unit WalkDirFunc" where
  "skip_blind q p e u = (if p = q then Return (Some SkipDir) u else Return None u)"

definition fail_at :: "string \<Rightarrow> unit WalkDirFunc" where
  "fail_at q p e u = (if p = q then Return (Some (ErrOther ''stop'')) u else Return None u)"

section \<open>Properties of the walker\<close>

subsection \<open>Events only grow\<close>

lemma run_visit_keeps_stat:
  "\<not> invokes_accessor os v \<Longrightarrow> run_visit os acc v stat lg = (r, stat', lg') \<Longrightarrow> stat' = stat"
  by (induction v arbitrary: lg) auto







lemma walkDir_callback_error:
  assumes "run_visit os (getinfo name) (fn name None (user s)) None
             (events s @ [Visit name None]) = (Returned (Some err) u, stat, lg)"
  shows "walkDir (Suc n) os fn name d s
           = Some (after_error err stat, s\<lparr>events := lg, user := u\<rparr>)"
  using assms by simp

subsection \<open>Symbolic links back to an ancestor\<close>

text \<open>
  C1. The claim: on a tree with a link back to an ancestor, the walk ends and the callback
  is called once for every real entry.

  In \<open>dot_tree\<close> the link \<^verbatim>\<open>/r/l\<close> points to its own directory \<^verbatim>\<open>/r\<close>. \<^verbatim>\<open>willwalk\<close> joins the
  target \<^verbatim>\<open>.\<close> to the path of the link, so \<^verbatim>\<open>realname\<close> is \<^verbatim>\<open>/r/l\<close>, not \<^verbatim>\<open>/r\<close>, which is in
  \<^verbatim>\<open>visited\<close>; the link is descended and the callback is called for \<^verbatim>\<open>/r/l/f\<close>, the file it
  was called for as \<^verbatim>\<open>/r/f\<close>. The callback here stops the walk at that second call; one that
  goes on is called again at \<^verbatim>\<open>/r/l/l/f\<close> and so on, until the system refuses the path.

  In \<open>cycle_tree\<close>, walked from \<^verbatim>\<open>/srv/r\<close>, the link points to \<^verbatim>\<open>/srv\<close>: the walk ends, and
  the callback is called for \<^verbatim>\<open>/srv/r/f\<close> and for \<^verbatim>\<open>/srv/r/l/r/f\<close>, again one file. The keys
  of \<^verbatim>\<open>visited\<close> are path strings as walked, not canonical paths.
\<close>

theorem WalkDir_cycle_visits_twice:
  "walk_visits (WalkDir 3 (tree_os dot_tree []) (fail_at ''/r/l/f'') ''/r'' ())
     = Some (Failed (ErrOther ''stop''), [''/r'', ''/r/f'', ''/r/l'', ''/r/l/f''])
   \<and> willwalk (tree_os dot_tree []) ''/r/l'' (unixDirEntry ''/r'' ''l'' ModeSymlink) {''/r''} []
     = (True, ''/r/l'', [CallReadlink ''/r/l'', CallStat ''/r/l''])
   \<and> resolve dot_tree [] False ''/r/f'' = Inr [''r'', ''f'']
   \<and> resolve dot_tree [] False ''/r/l/f'' = Inr [''r'', ''f'']
   \<and> walk_visits (WalkDir 4 (tree_os cycle_tree []) visit_all ''/srv/r'' ())
     = Some (Ok, [''/srv/r'', ''/srv/r/f'', ''/srv/r/l'', ''/srv/r/l/r'',
                  ''/srv/r/l/r/f'', ''/srv/r/l/r/l''])
   \<and> resolve cycle_tree [] False ''/srv/r/f'' = Inr [''srv'', ''r'', ''f'']
   \<and> resolve cycle_tree [] False ''/srv/r/l/r/f'' = Inr [''srv'', ''r'', ''f'']"
  by code_simp

text \<open>
  C2. The claim: a relative link target is resolved against the directory of the link, and
  the link is descended if the target is a directory not yet visited. For the link
  \<^verbatim>\<open>/r/l\<close> with target \<^verbatim>\<open>sub\<close>, \<^verbatim>\<open>willwalk\<close> joins the target to the path of the link itself:
  \<^verbatim>\<open>realname\<close> is \<^verbatim>\<open>/r/l/sub\<close>, which does not exist, so the link is a leaf, although
  \<^verbatim>\<open>/r/sub\<close> (the target taken against the link's directory \<^verbatim>\<open>/r/\<close>) is a directory that
  is not in \<^verbatim>\<open>visited\<close>.
\<close>

theorem willwalk_joins_link_path:
  "willwalk (tree_os link_tree []) ''/r/l'' (unixDirEntry ''/r'' ''l'' ModeSymlink) {''/r''} []
     = (False, ''/r/l/sub'', [CallReadlink ''/r/l'', CallStat ''/r/l/sub''])
   \<and> Join [fst (Split ''/r/l''), ''sub''] = ''/r/sub''
   \<and> Stat (tree_os link_tree []) ''/r/sub''
       = Inr \<lparr>fi_Name = ''sub'', fi_Size = 0, fi_Mode = ModeDir\<rparr>
   \<and> walk_visits (WalkDir 3 (tree_os link_tree []) visit_all ''/r'' ())
       = Some (Ok, [''/r'', ''/r/l'', ''/r/sub'', ''/r/sub/f''])"
  by code_simp

subsection \<open>What the callback's result does\<close>




text \<open>
  C10. When the callback returns \<^verbatim>\<open>fs.SkipDir\<close> for an entry and has not called the
  accessor, \<^verbatim>\<open>stat\<close> is still \<^verbatim>\<open>nil\<close> and \<^verbatim>\<open>walkDir\<close> panics on \<^verbatim>\<open>stat.IsDir()\<close>: it neither
  prunes nor goes on. So if \<^verbatim>\<open>walkDir\<close> does not panic after a \<^verbatim>\<open>fs.SkipDir\<close>, the callback
  has called the accessor.
\<close>

theorem walkDir_SkipDir_nil_stat_panics:
  fixes fn :: "'s WalkDirFunc"
  assumes "run_visit os (getinfo name) (fn name None (user s)) None
             (events s @ [Visit name None]) = (Returned (Some SkipDir) u, stat, lg)"
  shows "(\<not> invokes_accessor os (fn name None (user s)) \<longrightarrow>
            walkDir (Suc n) os fn name d s = Some (Crashed, s\<lparr>events := lg, user := u\<rparr>))
       \<and> (walkDir (Suc n) os fn name d s \<noteq> Some (Crashed, s\<lparr>events := lg, user := u\<rparr>) \<longrightarrow>
            invokes_accessor os (fn name None (user s)))"
proof -
  have "walkDir (Suc n) os fn name d s = Some (Crashed, s\<lparr>events := lg, user := u\<rparr>)"
    if "\<not> invokes_accessor os (fn name None (user s))"
  proof -
    from that assms have "stat = None" by (rule run_visit_keeps_stat)
    moreover have "walkDir (Suc n) os fn name d s
          = Some (after_error SkipDir stat, s\<lparr>events := lg, user := u\<rparr>)"
      using assms by (rule walkDir_callback_error[where fn = fn and name = name and s = s])
    ultimately show ?thesis by (simp add: after_error_def)
  qed
  then show ?thesis by blast
qed

theorem walkDir_SkipDir_nil_stat_panics_witness:
  "walkDir (Suc 0) (tree_os files_tree []) (skip_blind ''/r/c'') ''/r/c''
      (unixDirEntry ''/r'' ''c'' ModeDir) \<lparr>visited = {''/r''}, events = [], user = ()\<rparr>
     = Some (Crashed, \<lparr>visited = {''/r''}, events = [], user = ()\<rparr>
                       \<lparr>events := [Visit ''/r/c'' None], user := ()\<rparr>)
   \<and> invokes_accessor (tree_os files_tree [])
        (skip_at ''/r/c'' ''/r/c'' None (user \<lparr>visited = {''/r''}, events = [], user = ()\<rparr>))"
proof -
  let ?os = "tree_os files_tree []"
  let ?s = "\<lparr>visited = {''/r''}, events = [], user = ()\<rparr>"
  let ?c = "unixDirEntry ''/r'' ''c'' ModeDir"
  let ?ic = "\<lparr>fi_Name = ''c'', fi_Size = 0, fi_Mode = ModeDir\<rparr>"
  have rb: "run_visit ?os (getinfo ''/r/c'') (skip_blind ''/r/c'' ''/r/c'' None (user ?s)) None
              (events ?s @ [Visit ''/r/c'' None])
            = (Returned (Some SkipDir) (), None, [Visit ''/r/c'' None])"
    by code_simp
  have nb: "\<not> invokes_accessor ?os (skip_blind ''/r/c'' ''/r/c'' None (user ?s))"
    by (simp add: skip_blind_def)
  have rc: "run_visit ?os (getinfo ''/r/c'') (skip_at ''/r/c'' ''/r/c'' None (user ?s)) None
              (events ?s @ [Visit ''/r/c'' None])
            = (Returned (Some SkipDir) (), Some ?ic, [Visit ''/r/c'' None, CallStat ''/r/c''])"
    by code_simp
  have "walkDir (Suc 0) ?os (skip_at ''/r/c'') ''/r/c'' ?c ?s
          = Some (after_error SkipDir (Some ?ic),
              ?s\<lparr>events := [Visit ''/r/c'' None, CallStat ''/r/c''], user := ()\<rparr>)"
    using rc by (rule walkDir_callback_error[where fn = "skip_at ''/r/c''"
        and name = "''/r/c''" and s = ?s])
  then have ok: "walkDir (Suc 0) ?os (skip_at ''/r/c'') ''/r/c'' ?c ?s
             \<noteq> Some (Crashed, ?s\<lparr>events := [Visit ''/r/c'' None, CallStat ''/r/c''], user := ()\<rparr>)"
    by (simp only: after_error_def IsDir_def) simp
  have 1: "walkDir (Suc 0) ?os (skip_blind ''/r/c'') ''/r/c'' ?c ?s
             = Some (Crashed, ?s\<lparr>events := [Visit ''/r/c'' None], user := ()\<rparr>)"
    using nb
    by (rule walkDir_SkipDir_nil_stat_panics[where fn = "skip_blind ''/r/c''"
        and name = "''/r/c''" and s = ?s and n = 0 and d = ?c, OF rb, THEN conjunct1, THEN mp])
  have 2: "invokes_accessor ?os (skip_at ''/r/c'' ''/r/c'' None (user ?s))"
    using ok
    by (rule walkDir_SkipDir_nil_stat_panics[where fn = "skip_at ''/r/c''"
        and name = "''/r/c''" and s = ?s and n = 0 and d = ?c, OF rc, THEN conjunct2, THEN mp])
  from 1 2 show ?thesis by blast
qed

section \<open>Properties of the search\<close>

text \<open>
  C3. The claim: with a regular expression, the expression is matched against the path of
  the entry relative to the directory searched. The callback matches it against \<open>fpath\<close>,
  the path the walker passes, which starts with the served directory and the request
  path. Searching \<^verbatim>\<open>/docs\<close> of the served directory \<^verbatim>\<open>/srv\<close> for \<^verbatim>\<open>^notes\<close> delivers nothing,
  although the relative path of \<^verbatim>\<open>/srv/docs/notes\<close> is \<^verbatim>\<open>notes\<close>, which the expression matches.
\<close>

theorem regexp_matched_against_walker_path:
  "result_paths (handleSearch 3 literal_regexp (tree_os docs_tree []) ''/srv'' ''/docs''
                   ''^notes'' True) = Some []
   \<and> Rel (Join [''/srv'', ''/docs'']) ''/srv/docs/notes'' = Some ''notes''
   \<and> MatchString literal_regexp ''^notes'' ''notes''
   \<and> walk_visits (WalkDir 3 (tree_os docs_tree [])
        (search_fn literal_regexp ''/srv/docs'' (Some ''^notes'') []) ''/srv/docs'' [])
       = Some (Ok, [''/srv/docs'', ''/srv/docs/notes''])"
  by code_simp

text \<open>
  C6. The claim: every matching entry is delivered once, also a matching directory that
  cannot be read. Searching \<open>secret_tree\<close> for \<^verbatim>\<open>sec\<close>: the directory \<^verbatim>\<open>secret\<close> matches at
  its visit and is sent; reading it fails with a permission error, the callback is called
  again with that error, goes on to the test, matches again and sends it a second time.
\<close>

theorem unreadable_match_delivered_twice:
  "result_paths (handleSearch 3 literal_regexp (tree_os secret_tree []) ''/srv'' ''/''
                   ''sec'' False) = Some [''secret'', ''secret'']
   \<and> walk_visits (WalkDir 3 (tree_os secret_tree [])
        (search_fn literal_regexp ''/srv'' None ''sec'') ''/srv'' [])
       = Some (Ok, [''/srv'', ''/srv/notes'', ''/srv/secret'', ''/srv/secret''])"
  by code_simp

text \<open>
  C7. When a regular expression is asked for and the query does not compile,
  \<^verbatim>\<open>handleSearch\<close> answers with status 400 and the message of the error; there is no
  traversal, no result and no system call, whatever the file system and the depth bound.
\<close>

theorem invalid_regexp_bad_request:
  assumes "Compile re query = Inl msg"
  shows "handleSearch n re os dir relpath query True
           = Some \<lparr>sr_response = HttpError 400 msg, sr_walk = None, sr_events = []\<rparr>"
  using assms by (simp add: handleSearch_def StatusBadRequest_def)

theorem invalid_regexp_bad_request_witness:
  "handleSearch 0 literal_regexp (tree_os docs_tree []) ''/srv'' ''/docs'' ''('' True
     = Some \<lparr>sr_response = HttpError 400 ''error parsing regexp: missing closing )'',
             sr_walk = None, sr_events = []\<rparr>"
proof -
  have "Compile literal_regexp ''('' = Inl ''error parsing regexp: missing closing )''"
    by (simp add: literal_regexp_def)
  then show ?thesis by (rule invalid_regexp_bad_request)
qed

section \<open>Properties of the directory index\<close>

subsection \<open>The listing is sorted\<close>

lemma less_files_key: "less_files a b \<longleftrightarrow> sort_key_of a < sort_key_of b"
  by (auto simp: less_files_def sort_key_of_def less_prod_def)

lemma insert_less_insort: "insert_less less_files x ys = insort_key sort_key_of x ys"
  by (induction ys) (auto simp: less_files_key)

lemma sort_Slice_sort_key: "sort_Slice less_files xs = sort_key sort_key_of xs"
proof -
  have "insert_less less_files = insort_key sort_key_of"
    by (intro ext) (rule insert_less_insort)
  then show ?thesis by (simp add: sort_Slice_def sort_key_def)
qed

lemma sort_Slice_sorted: "sorted_wrt (\<lambda>a b. \<not> less_files b a) (sort_Slice less_files xs)"
proof -
  have "sorted (map sort_key_of (sort_key sort_key_of xs))" by (rule sorted_sort_key)
  then have "sorted_wrt (\<lambda>a b. sort_key_of a \<le> sort_key_of b) (sort_key sort_key_of xs)"
    by (simp add: sorted_wrt_map)
  then show ?thesis
    by (simp add: sort_Slice_sort_key less_files_key not_less)
qed


text \<open>
  Any list with the same entries that is in order is the model's list, when no two entries
  have the same name: the result of \<^verbatim>\<open>sort.Slice\<close> does not depend on its algorithm.
\<close>

lemma sort_Slice_unique:
  assumes perm: "mset ys = mset xs"
    and ordered: "sorted_wrt (\<lambda>a b. \<not> less_files b a) ys"
    and names: "distinct (map f_Name xs)"
  shows "ys = sort_Slice less_files xs"
proof -
  let ?zs = "sort_key sort_key_of xs"
  have inj: "inj_on sort_key_of (set xs)"
    using names by (auto simp: inj_on_def sort_key_of_def distinct_map)
  have dx: "distinct xs" using names by (simp add: distinct_map)
  have sy: "sorted (map sort_key_of ys)"
    using ordered by (simp add: sorted_wrt_map less_files_key not_less)
  have set_eq: "set ys = set xs" using perm by (rule mset_eq_setD)
  have dy: "distinct ys" using perm dx by (metis mset_eq_imp_distinct_iff)
  have "map sort_key_of ys = map sort_key_of ?zs"
  proof (rule sorted_distinct_set_unique)
    show "sorted (map sort_key_of ys)" by (rule sy)
    show "distinct (map sort_key_of ys)"
      using dy inj set_eq by (simp add: distinct_map)
    show "sorted (map sort_key_of ?zs)" by (rule sorted_sort_key)
    show "distinct (map sort_key_of ?zs)"
      using dx inj by (simp add: distinct_map)
    show "set (map sort_key_of ys) = set (map sort_key_of ?zs)"
      using set_eq by simp
  qed
  moreover have "inj_on sort_key_of (set ys \<union> set ?zs)" using inj set_eq by simp
  ultimately have "ys = ?zs" by (rule inj_on_map_eq_map[THEN iffD1, rotated])
  then show ?thesis by (simp add: sort_Slice_sort_key)
qed

subsection \<open>The selection of the README\<close>

lemma select_readme_first:
  "select_readme os Convert root dirpath listing = first_readme os Convert root dirpath listing"
  by (induction listing)
    (auto simp: first_readme_def is_readme_def render_readme_def split: sum.splits)

lemma find_first_sorted:
  assumes "sorted (map key l)" and "a \<in> set l" and "P a"
    and "\<And>b. b \<in> set l \<Longrightarrow> P b \<Longrightarrow> b = a \<or> key a < key b"
  shows "find P l = Some a"
  using assms
proof (induction l)
  case Nil
  then show ?case by simp
next
  case (Cons x xs)
  show ?case
  proof (cases "P x")
    case True
    have "key x \<le> key a" using Cons.prems(1,2) by auto
    moreover have "x = a \<or> key a < key x" using Cons.prems(4)[of x] True by simp
    ultimately have "x = a" by auto
    with True show ?thesis by simp
  next
    case False
    with Cons.prems(3) have "x \<noteq> a" by auto
    with Cons.prems(2) have "a \<in> set xs" by simp
    moreover have "sorted (map key xs)" using Cons.prems(1) by simp
    ultimately have "find P xs = Some a"
      using Cons.prems(3,4) by (intro Cons.IH) auto
    with False show ?thesis by simp
  qed
qed

lemma readme_of_Populate:
  "readme_of (Populate os Convert files dirpath root)
     = select_readme os Convert root dirpath
         (sort_Slice less_files (populated os root dirpath files))"
  by (simp add: readme_of_def Populate_def Let_def split: sum.splits)

lemma PopulateFrom_info: "f_info (fst (PopulateFrom os p i z)) = Some i"
  by (simp add: PopulateFrom_def split: sum.splits)

lemma PopulateFrom_regular:
  "fi_Mode i = ModeRegular \<Longrightarrow> fst (PopulateFrom os p i z) = z\<lparr>f_info := Some i\<rparr>"
  by (simp add: PopulateFrom_def)



text \<open>
  C9, as claimed: in every directory that holds \<^verbatim>\<open>README.md\<close> and \<^verbatim>\<open>README.txt\<close> the README
  is the conversion of \<^verbatim>\<open>README.md\<close>. \<^verbatim>\<open>/srv/e\<close> holds both and \<^verbatim>\<open>README.html\<close>, which comes
  first in the listing: the README is the content of \<^verbatim>\<open>README.html\<close>, not the conversion of
  \<^verbatim>\<open>README.md\<close>.
\<close>

theorem README_html_listed_first:
  "readme_of (Populate (tree_os readme_tree []) wrap_paragraph
      (Readdir readme_tree [''srv'', ''e'']) ''/e'' ''/srv'') = Inr (Some ''<b>bold</b>'')
   \<and> ReadFile (tree_os readme_tree []) (Join [''/srv'', ''/e'', ''README.md'']) = Inr ''hello''
   \<and> wrap_paragraph ''hello'' = Inr ''<p>hello</p>''"
  by code_simp

text \<open>
  C9, amended. In a directory that holds the regular files \<^verbatim>\<open>README.md\<close> and \<^verbatim>\<open>README.txt\<close>
  and no other entry whose lower-cased name is \<^verbatim>\<open>readme.txt\<close>, \<^verbatim>\<open>readme.html\<close> or
  \<^verbatim>\<open>readme.md\<close>, with \<^verbatim>\<open>README.md\<close> read and converted without error, the README is exactly
  the conversion of the content of \<^verbatim>\<open>README.md\<close>; nothing of \<^verbatim>\<open>README.txt\<close> is in it.
\<close>

theorem README_md_before_README_txt:
  assumes md: "md \<in> set files" "fi_Name md = ''README.md''" "fi_Mode md = ModeRegular"
    and tx: "tx \<in> set files" "fi_Name tx = ''README.txt''" "fi_Mode tx = ModeRegular"
    and others: "\<forall>f\<in>set files.
        ToLower (fi_Name f) \<in> {''readme.txt'', ''readme.html'', ''readme.md''}
          \<longrightarrow> f = md \<or> f = tx"
    and read: "ReadFile os (Join [root, dirpath, ''README.md'']) = Inr p"
    and conv: "Convert p = Inr html"
  shows "readme_of (Populate os Convert files dirpath root) = Inr (Some html)"
proof -
  let ?P = "\<lambda>f. fst (PopulateFrom os (Join [root, dirpath, fi_Name f]) f zero_FileInfo)"
  let ?L = "populated os root dirpath files"
  let ?S = "sort_Slice less_files ?L"
  let ?a = "zero_FileInfo\<lparr>f_info := Some md\<rparr>"
  let ?b = "zero_FileInfo\<lparr>f_info := Some tx\<rparr>"
  have lmd: "ToLower ''README.md'' = ''readme.md''" by code_simp
  have lt: "(''README.md'' :: string) < ''README.txt''" by code_simp
  have Pmd: "?P md = ?a" using md(3) by (rule PopulateFrom_regular)
  have Ptxt: "?P tx = ?b" using tx(3) by (rule PopulateFrom_regular)
  have setS: "set ?S = ?P ` set files"
    by (simp add: sort_Slice_sort_key populated_def)
  have a_in: "?a \<in> set ?S" using md(1) Pmd setS by force
  have ra: "is_readme ?a" using md(2) lmd by (simp add: is_readme_def f_Name_def)
  have key_a: "sort_key_of ?a = (True, ''README.md'')"
    using md(2,3)
    by (simp add: sort_key_of_def GoesToDir_def mode_def f_Mode_def f_Name_def)
  have key_b: "sort_key_of ?b = (True, ''README.txt'')"
    using tx(2,3)
    by (simp add: sort_key_of_def GoesToDir_def mode_def f_Mode_def f_Name_def)
  have first: "find is_readme ?S = Some ?a"
  proof (rule find_first_sorted[where key = sort_key_of])
    show "sorted (map sort_key_of ?S)"
      by (simp only: sort_Slice_sort_key sorted_sort_key)
    show "?a \<in> set ?S" by (rule a_in)
    show "is_readme ?a" by (rule ra)
    show "b = ?a \<or> sort_key_of ?a < sort_key_of b"
      if "b \<in> set ?S" and "is_readme b" for b
    proof -
      from that(1) setS obtain f where f: "f \<in> set files" "b = ?P f" by auto
      have "f_Name b = fi_Name f" using f(2) by (simp add: f_Name_def PopulateFrom_info)
      with that(2) have "ToLower (fi_Name f) \<in> {''readme.txt'', ''readme.html'', ''readme.md''}"
        by (simp add: is_readme_def)
      with others f(1) have "f = md \<or> f = tx" by blast
      then show ?thesis
      proof
        assume "f = md"
        with f(2) Pmd show ?thesis by simp
      next
        assume "f = tx"
        with f(2) Ptxt have "b = ?b" by simp
        with key_a key_b lt show ?thesis by (simp add: less_prod_def)
      qed
    qed
  qed
  have "render_readme os Convert root dirpath ?a = Inr (Some html)"
    using md(2) read conv lmd by (simp add: render_readme_def f_Name_def)
  with first have "first_readme os Convert root dirpath ?S = Inr (Some html)"
    by (simp add: first_readme_def)
  then show ?thesis by (simp only: readme_of_Populate select_readme_first)
qed

theorem README_md_before_README_txt_witness:
  "readme_of (Populate (tree_os readme_tree []) wrap_paragraph
      (Readdir readme_tree [''srv'', ''d'']) ''/d'' ''/srv'') = Inr (Some ''<p>hello</p>'')"
proof (rule README_md_before_README_txt[where
      md = "\<lparr>fi_Name = ''README.md'', fi_Size = 5, fi_Mode = ModeRegular\<rparr>" and
      tx = "\<lparr>fi_Name = ''README.txt'', fi_Size = 12, fi_Mode = ModeRegular\<rparr>" and
      p = "''hello''"])
  show "\<lparr>fi_Name = ''README.md'', fi_Size = 5, fi_Mode = ModeRegular\<rparr>
          \<in> set (Readdir readme_tree [''srv'', ''d''])"
    by code_simp
  show "\<lparr>fi_Name = ''README.txt'', fi_Size = 12, fi_Mode = ModeRegular\<rparr>
          \<in> set (Readdir readme_tree [''srv'', ''d''])"
    by code_simp
  show "\<forall>f\<in>set (Readdir readme_tree [''srv'', ''d'']).
          ToLower (fi_Name f) \<in> {''readme.txt'', ''readme.html'', ''readme.md''} \<longrightarrow>
          f = \<lparr>fi_Name = ''README.md'', fi_Size = 5, fi_Mode = ModeRegular\<rparr> \<or>
          f = \<lparr>fi_Name = ''README.txt'', fi_Size = 12, fi_Mode = ModeRegular\<rparr>"
    by code_simp
  show "ReadFile (tree_os readme_tree []) (Join [''/srv'', ''/d'', ''README.md'']) = Inr ''hello''"
    by code_simp
  show "wrap_paragraph ''hello'' = Inr ''<p>hello</p>''"
    by (simp add: wrap_paragraph_def)
qed simp_all

section \<open>Properties of the archives\<close>

subsection \<open>Paths of valid names\<close>

lemma split_path_no_slash: "CHR ''/'' \<notin> set c \<Longrightarrow> split_path c = [c]"
  by (induction c) auto

lemma split_path_append:
  "CHR ''/'' \<notin> set x \<Longrightarrow> split_path (x @ CHR ''/'' # rest) = x # split_path rest"
  by (induction x) auto

lemma split_path_join_slash:
  "cs \<noteq> [] \<Longrightarrow> list_all valid_name cs \<Longrightarrow> split_path (join_slash cs) = cs"
proof (induction cs rule: join_slash.induct)
  case 1
  then show ?case by simp
next
  case (2 x)
  then show ?case by (simp add: valid_name_def split_path_no_slash)
next
  case (3 x y ys)
  then show ?case by (simp add: valid_name_def split_path_append)
qed







lemma ValidPath_walk_name:
  assumes "list_all valid_name cs"
  shows "ValidPath (walk_name cs) = ValidString (walk_name cs)"
proof (cases "cs = []")
  case True
  then show ?thesis by (simp add: ValidPath_def walk_name_def)
next
  case False
  have "list_all (\<lambda>elem. elem \<noteq> [] \<and> elem \<noteq> ''.'' \<and> elem \<noteq> ''..'') cs"
    using assms by (simp add: list_all_iff valid_name_def)
  then show ?thesis
    using False assms by (simp add: ValidPath_def walk_name_def split_path_join_slash)
qed






subsection \<open>The walk writes the regular files\<close>



subsection \<open>The regular files of a tree\<close>



lemma wf_entries_valid: "wf_entries es \<Longrightarrow> (nm, n) \<in> set es \<Longrightarrow> valid_name nm \<and> wf_tree n"
  by (induction es) auto

lemma join_slash_inj:
  assumes "join_slash cs = join_slash ds" and "cs \<noteq> []" and "ds \<noteq> []"
    and "list_all valid_name cs" and "list_all valid_name ds"
  shows "cs = ds"
proof -
  have "cs = split_path (join_slash cs)"
    using assms(2,4) by (rule split_path_join_slash[symmetric])
  also have "\<dots> = split_path (join_slash ds)" by (simp only: assms(1))
  also have "\<dots> = ds" using assms(3,5) by (rule split_path_join_slash)
  finally show ?thesis .
qed

lemma regular_files_paths:
  "wf_tree n \<Longrightarrow> list_all valid_name cs \<Longrightarrow>
     distinct (map fst (regular_files cs n))
     \<and> (\<forall>p\<in>fst ` set (regular_files cs n). \<exists>ds. list_all valid_name ds \<and> p = join_slash (cs @ ds))"
  and regular_files_in_paths:
    "distinct (map fst es) \<Longrightarrow> wf_entries es \<Longrightarrow> list_all valid_name cs \<Longrightarrow>
     distinct (map fst (regular_files_in cs es))
     \<and> (\<forall>p\<in>fst ` set (regular_files_in cs es).
          \<exists>nm ds. nm \<in> fst ` set es \<and> valid_name nm \<and> list_all valid_name ds
            \<and> p = join_slash (cs @ nm # ds))"
proof (induction cs n and cs es rule: regular_files_regular_files_in.induct)
  case (1 cs r c)
  show ?case by (auto intro!: exI[of _ "[]"])
next
  case (2 cs r es)
  then have d: "distinct (map fst es)" and w: "wf_entries es" by simp_all
  note IH = 2(1)[OF d w 2(3)]
  have "\<exists>ds. list_all valid_name ds \<and> p = join_slash (cs @ ds)"
    if "p \<in> fst ` set (regular_files_in cs es)" for p
  proof -
    from IH that obtain nm ds where "valid_name nm" "list_all valid_name ds"
      "p = join_slash (cs @ nm # ds)" by blast
    then have "list_all valid_name (nm # ds) \<and> p = join_slash (cs @ (nm # ds))" by simp
    then show ?thesis by blast
  qed
  with IH show ?case by simp
next
  case (3 cs tg)
  then show ?case by simp
next
  case (4 cs)
  then show ?case by simp
next
  case (5 cs)
  then show ?case by simp
next
  case (6 cs nm n es)
  then have w: "wf_tree n" and d: "distinct (map fst es)" and we: "wf_entries es"
    and fresh: "nm \<notin> fst ` set es" and vn: "valid_name nm"
    by simp_all
  have vc: "list_all valid_name (cs @ [nm])" using 6(5) vn by simp
  note IH1 = 6(1)[OF w vc]
  note IH2 = 6(2)[OF d we 6(5)]
  have disjoint: "p \<notin> fst ` set (regular_files_in cs es)"
    if "p \<in> fst ` set (regular_files (cs @ [nm]) n)" for p
  proof
    assume "p \<in> fst ` set (regular_files_in cs es)"
    with IH2 obtain nm' ds' where b: "nm' \<in> fst ` set es" "valid_name nm'"
      "list_all valid_name ds'" "p = join_slash (cs @ nm' # ds')" by blast
    from IH1 that obtain ds where a: "list_all valid_name ds"
      "p = join_slash ((cs @ [nm]) @ ds)" by blast
    have "cs @ nm # ds = cs @ nm' # ds'"
    proof (rule join_slash_inj)
      show "join_slash (cs @ nm # ds) = join_slash (cs @ nm' # ds')" using a(2) b(4) by simp
      show "list_all valid_name (cs @ nm # ds)" using 6(5) vn a(1) by simp
      show "list_all valid_name (cs @ nm' # ds')" using 6(5) b(2,3) by simp
    qed simp_all
    then have "nm = nm'" by simp
    with b(1) fresh show False by simp
  qed
  have dist: "distinct (map fst (regular_files_in cs ((nm, n) # es)))"
    using IH1 IH2 disjoint by auto
  have form: "\<exists>nm' ds. nm' \<in> fst ` set ((nm, n) # es) \<and> valid_name nm'
                \<and> list_all valid_name ds \<and> p = join_slash (cs @ nm' # ds)"
    if "p \<in> fst ` set (regular_files_in cs ((nm, n) # es))" for p
  proof -
    from that have "p \<in> fst ` set (regular_files (cs @ [nm]) n)
                     \<or> p \<in> fst ` set (regular_files_in cs es)" by auto
    then show ?thesis
    proof
      assume "p \<in> fst ` set (regular_files (cs @ [nm]) n)"
      with IH1 obtain ds where "list_all valid_name ds" "p = join_slash ((cs @ [nm]) @ ds)"
        by blast
      then have "nm \<in> fst ` set ((nm, n) # es) \<and> valid_name nm \<and> list_all valid_name ds
                  \<and> p = join_slash (cs @ nm # ds)"
        using vn by simp
      then show ?thesis by blast
    next
      assume "p \<in> fst ` set (regular_files_in cs es)"
      with IH2 obtain nm' ds where "nm' \<in> fst ` set es" "valid_name nm'"
        "list_all valid_name ds" "p = join_slash (cs @ nm' # ds)" by blast
      then have "nm' \<in> fst ` set ((nm, n) # es) \<and> valid_name nm' \<and> list_all valid_name ds
                  \<and> p = join_slash (cs @ nm' # ds)"
        by simp
      then show ?thesis by blast
    qed
  qed
  from dist form show ?case by blast
qed




lemma archiveZIP_invalid_name:
  "archiveZIP (Dir True [([CHR 0xC3], File True ''x'')]) = (Some ErrInvalid, [])
   \<and> wf_tree (Dir True [([CHR 0xC3], File True ''x'')])"
  by code_simp



end
